theory Spec2Isabelle
  imports Complex_Main
begin

section \<open>Python and NumPy arithmetic\<close>

text \<open>
  The script \<^verbatim>\<open>app.py\<close> computes with Python floats and NumPy \<^verbatim>\<open>float64\<close> values.
  They are embedded as real numbers: every operation is the exact operation on the
  reals, and rounding is not part of the model. A division is the real division, which
  is the script's only where the divisor is not zero: on a zero divisor Python raises
  \<^verbatim>\<open>ZeroDivisionError\<close> and NumPy returns an infinity or NaN, where HOL returns 0. A
  theorem below whose statement depends on the value of a quotient therefore assumes
  that the divisor is not zero, and \<open>divisores_nao_nulos\<close> shows that no divisor of the
  script is zero for the values the widgets produce.
\<close>

text \<open>
  The power \<^verbatim>\<open>x ** y\<close> with a float exponent. For a positive base it is the real
  power; \<^verbatim>\<open>x ** 0.0\<close> is \<^verbatim>\<open>1.0\<close> for every \<^verbatim>\<open>x\<close> (where \<open>0 powr 0 = 0\<close> in HOL), and
  \<^verbatim>\<open>0.0 ** y\<close> is \<^verbatim>\<open>0.0\<close> for positive \<^verbatim>\<open>y\<close>. A negative base with a fractional exponent,
  and a zero base with a negative exponent, give NaN, a complex number, an infinity
  or an exception in Python and NumPy: the theorems below exclude them by hypothesis.
\<close>

definition float_pow :: "real \<Rightarrow> real \<Rightarrow> real" where
  "float_pow x y = (if y = 0 then 1 else x powr y)"

text \<open>\<^verbatim>\<open>np.radians\<close> converts degrees to radians.\<close>

definition radians :: "real \<Rightarrow> real" where
  "radians x = x * pi / 180"

text \<open>
  \<^verbatim>\<open>np.linspace(start, stop, num)\<close> with the default \<^verbatim>\<open>endpoint=True\<close>: the samples
  \<^verbatim>\<open>arange(0, num) * step + start\<close> with \<^verbatim>\<open>step = (stop - start) / (num - 1)\<close>, the last
  one overwritten with \<^verbatim>\<open>stop\<close> when \<^verbatim>\<open>num > 1\<close>. \<^verbatim>\<open>np.logspace(start, stop, num)\<close> raises
  the default base 10 to these exponents.
\<close>

definition linspace :: "real \<Rightarrow> real \<Rightarrow> nat \<Rightarrow> real list" where
  "linspace start stop num =
     (let step = (stop - start) / real (num - 1);
          y = map (\<lambda>i. real i * step + start) [0..<num]
      in if 1 < num then y[num - 1 := stop] else y)"

definition logspace :: "real \<Rightarrow> real \<Rightarrow> nat \<Rightarrow> real list" where
  "logspace start stop num = map (\<lambda>y. float_pow 10 y) (linspace start stop num)"

section \<open>Reference tables\<close>

text \<open>
  The three dictionaries of the script. Python dictionaries iterate in insertion order,
  and the sweep iterates over \<^verbatim>\<open>malha.items()\<close>, so they are association lists. Each
  value is the single field of the inner dictionary (\<^verbatim>\<open>densidade\<close>, \<^verbatim>\<open>A\<close>, \<^verbatim>\<open>B\<close>).
\<close>

definition explosivos :: "(string \<times> real) list" where
  "explosivos =
     [(''ANFO'', 0.90),
      (''Dinamite granulada'', 1.1),
      (''Dinamite gelatina'', 1.4),
      (''Lama encartuchada'', 1.2)]"

text \<open>The first key has an a-acute, two bytes in UTF-8.\<close>

definition macicos :: "(string \<times> real) list" where
  "macicos =
     [(''Rocha fri'' @ [char_of (195::nat), char_of (161::nat)] @ ''vel de baixa dureza'', 3),
      (''Rocha branda e pouco fraturada'', 5),
      (''Rocha dura e altamente fraturada'', 10),
      (''Rocha altamente dura e pouco fraturada'', 12)]"

definition malha :: "(string \<times> real) list" where
  "malha = [(''Aberta'', 6.5), (''Fechada'', 3)]"

section \<open>Calculation functions\<close>

definition calcular_espacamento :: "real \<Rightarrow> real \<Rightarrow> real" where
  "calcular_espacamento H B = 0.23 * (H + 2 * B)"

definition calcular_qe :: "real \<Rightarrow> real \<Rightarrow> real \<Rightarrow> real" where
  "calcular_qe densidade diametro altura_total =
     (let diametro_cm = diametro / 10;
          area_cm2 = (pi / 4) * diametro_cm\<^sup>2;
          massa_linear_g_cm = area_cm2 * densidade;
          comprimento_cm = altura_total * 100;
          massa_total_g = massa_linear_g_cm * comprimento_cm
      in massa_total_g / 1000)"

definition calcular_x50 :: "real \<Rightarrow> real \<Rightarrow> real \<Rightarrow> real" where
  "calcular_x50 A K Qe = A * float_pow K (- 0.8) * float_pow Qe (1 / 6)"

section \<open>The script\<close>

text \<open>The constants fixed in the script.\<close>

definition subperf :: real where
  "subperf = 0.6"

definition inclinacao :: real where
  "inclinacao = 15"

definition inclinacao_rad :: real where
  "inclinacao_rad = radians inclinacao"

definition diametro :: real where
  "diametro = 76.2"

definition W_desvio :: real where
  "W_desvio = 0.1"

text \<open>
  Line 109, the uniformity index, as a function of the variables it reads:
  \<^verbatim>\<open>n = (2.2 - 14 * (afastamento / D)) * ((1 + (S / afastamento) / 2)**0.5)
        * ((1 - (W / afastamento)) * (L / altura))\<close>
  It is the value of the line where \<open>afastamento\<close>, \<open>D\<close> and \<open>altura\<close> are not zero and the
  base of the power is not negative. With \<open>afastamento = 0\<close> or \<open>D = 0\<close> the line raises
  \<^verbatim>\<open>ZeroDivisionError\<close>, and with \<open>altura = 0\<close> the NumPy division \<^verbatim>\<open>L / altura\<close> gives an
  infinity or NaN: these cases are outside the definition, and every theorem about it
  assumes them away.
\<close>

definition indice_n :: "real \<Rightarrow> real \<Rightarrow> real \<Rightarrow> real \<Rightarrow> real \<Rightarrow> real \<Rightarrow> real" where
  "indice_n afastamento S D W L altura =
     (2.2 - 14 * (afastamento / D)) * float_pow (1 + (S / afastamento) / 2) 0.5
       * ((1 - (W / afastamento)) * (L / altura))"

text \<open>
  The module-level variables computed from the widget values (lines 59 to 80 and 105
  to 109), in the order of the script. The record is the state of the script after line
  109 where \<open>afastamento\<close> and \<open>altura\<close> are positive, as they are for every value of the
  widgets (a burden of \<open>malha\<close>, a bench height from 2 to 15).
\<close>

record plano =
  res_altura_total :: real
  res_S :: real
  res_Qe :: real
  res_n_furos :: int
  res_massa_total :: real
  res_V :: real
  res_K :: real
  res_X50 :: real
  res_X50_mm :: real
  res_n :: real

definition calcular_plano :: "real \<Rightarrow> real \<Rightarrow> real \<Rightarrow> real \<Rightarrow> int \<Rightarrow> int \<Rightarrow> plano" where
  "calcular_plano A afastamento altura densidade furos_linha linhas =
     (let altura_total = (altura + subperf) / cos inclinacao_rad;
          S = calcular_espacamento altura afastamento;
          Qe = calcular_qe densidade diametro altura_total;
          n_furos = furos_linha * linhas;
          massa_total = Qe * real_of_int n_furos;
          V = S * afastamento * altura;
          K = Qe / V;
          X50 = calcular_x50 A K Qe;
          X50_mm = X50 * 10;
          D = diametro;
          W = W_desvio;
          L = altura_total;
          n = indice_n afastamento S D W L altura
      in \<lparr>res_altura_total = altura_total, res_S = S, res_Qe = Qe, res_n_furos = n_furos,
          res_massa_total = massa_total, res_V = V, res_K = K, res_X50 = X50,
          res_X50_mm = X50_mm, res_n = n\<rparr>)"

subsection \<open>The Rosin-Rammler curves\<close>

text \<open>Line 114: \<^verbatim>\<open>x_mm = np.logspace(0, 4, 100)\<close>.\<close>

definition x_mm :: "real list" where
  "x_mm = logspace 0 4 100"

text \<open>Lines 123 and 124 at one sieve opening.\<close>

definition rosin_R :: "real \<Rightarrow> real \<Rightarrow> real \<Rightarrow> real" where
  "rosin_R x X50_temp n = exp (- 0.693 * float_pow (x / X50_temp) n)"

definition passante_P :: "real \<Rightarrow> real \<Rightarrow> real \<Rightarrow> real" where
  "passante_P x X50_temp n = 100 * (1 - rosin_R x X50_temp n)"

text \<open>
  One iteration of the loop over \<^verbatim>\<open>malha.items()\<close> (lines 117 to 125): its local
  variables, and the curve it hands to \<^verbatim>\<open>ax.plot(x_mm, P, label=...)\<close>.
\<close>

record iteracao =
  it_nome :: string
  it_B :: real
  it_S_temp :: real
  it_V_temp :: real
  it_K_temp :: real
  it_X50_temp :: real
  it_P :: "real list"

definition iterar :: "real \<Rightarrow> real \<Rightarrow> real \<Rightarrow> real \<Rightarrow> real \<Rightarrow> string \<times> real \<Rightarrow> iteracao" where
  "iterar A K Qe altura n item =
     (let nome = fst item;
          B = snd item;
          S_temp = calcular_espacamento altura B;
          V_temp = S_temp * B * altura;
          K_temp = Qe / V_temp;
          X50_temp = calcular_x50 A K Qe * 10;
          P = map (\<lambda>x. passante_P x X50_temp n) x_mm
      in \<lparr>it_nome = nome, it_B = B, it_S_temp = S_temp, it_V_temp = V_temp,
          it_K_temp = K_temp, it_X50_temp = X50_temp, it_P = P\<rparr>)"

record curva =
  rotulo :: string
  eixo_x :: "real list"
  eixo_P :: "real list"

definition plotar :: "iteracao \<Rightarrow> curva" where
  "plotar it = \<lparr>rotulo = ''Malha '' @ it_nome it, eixo_x = x_mm, eixo_P = it_P it\<rparr>"

definition iteracoes :: "plano \<Rightarrow> real \<Rightarrow> real \<Rightarrow> iteracao list" where
  "iteracoes p A altura = map (iterar A (res_K p) (res_Qe p) altura (res_n p)) malha"

definition curvas :: "plano \<Rightarrow> real \<Rightarrow> real \<Rightarrow> curva list" where
  "curvas p A altura = map plotar (iteracoes p A altura)"

subsection \<open>The widgets and the whole run\<close>

text \<open>A lookup of a key that a dictionary does not have raises \<^verbatim>\<open>KeyError\<close>.\<close>

datatype py_error = KeyError

text \<open>
  The values of the select boxes and sliders. A select box returns one of the keys of
  its dictionary and a slider a value in its range; \<open>entrada_valida\<close> says so.
\<close>

record entrada =
  explosivo_tipo :: string
  macico_tipo :: string
  malha_tipo :: string
  altura :: real
  furos_linha :: int
  linhas :: int

definition entrada_valida :: "entrada \<Rightarrow> bool" where
  "entrada_valida e \<longleftrightarrow>
     explosivo_tipo e \<in> set (map fst explosivos) \<and>
     macico_tipo e \<in> set (map fst macicos) \<and>
     malha_tipo e \<in> set (map fst malha) \<and>
     2 \<le> altura e \<and> altura e \<le> 15 \<and>
     1 \<le> furos_linha e \<and> furos_linha e \<le> 8 \<and>
     1 \<le> linhas e \<and> linhas e \<le> 5"

record saida =
  resultado :: plano
  graficos :: "curva list"

definition simular :: "entrada \<Rightarrow> py_error + saida" where
  "simular e =
     (case map_of macicos (macico_tipo e) of
        None \<Rightarrow> Inl KeyError
      | Some A \<Rightarrow>
          (case map_of malha (malha_tipo e) of
             None \<Rightarrow> Inl KeyError
           | Some afastamento \<Rightarrow>
               (case map_of explosivos (explosivo_tipo e) of
                  None \<Rightarrow> Inl KeyError
                | Some densidade \<Rightarrow>
                    (let p = calcular_plano A afastamento (altura e) densidade
                               (furos_linha e) (linhas e)
                     in Inr \<lparr>resultado = p, graficos = curvas p A (altura e)\<rparr>))))"

section \<open>The formulas as the specification words them\<close>

text \<open>
  The uniformity index in the words of the specification, with a square root where the
  script raises to the power \<open>0.5\<close>; it is compared with \<open>indice_n\<close> below.
\<close>

definition uniformity_index :: "real \<Rightarrow> real \<Rightarrow> real \<Rightarrow> real \<Rightarrow> real \<Rightarrow> real \<Rightarrow> real" where
  "uniformity_index burden spacing diameter hole_deviation charge_length bench_height =
     (2.2 - 14 * (burden / diameter)) * sqrt (1 + (spacing / burden) / 2)
       * ((1 - hole_deviation / burden) * (charge_length / bench_height))"

section \<open>Auxiliary facts\<close>

subsection \<open>Powers\<close>

lemma float_pow_nonzero: "y \<noteq> 0 \<Longrightarrow> float_pow x y = x powr y"
  by (simp add: float_pow_def)

lemma float_pow_half: "0 \<le> x \<Longrightarrow> float_pow x 0.5 = sqrt x"
  using powr_half_sqrt [of x] by (simp add: float_pow_def)

lemma float_pow_ten: "float_pow 10 y = 10 powr y"
  by (simp add: float_pow_def)

subsection \<open>The sample points\<close>

lemma length_linspace: "length (linspace a b k) = k"
  by (simp add: linspace_def Let_def)

lemma linspace_nth:
  assumes i: "i < k - 1"
  shows "linspace a b k ! i = real i * ((b - a) / real (k - 1)) + a"
proof -
  from i have k: "1 < k" and ik: "i < k" by simp_all
  from i have "(map (\<lambda>j. real j * ((b - a) / real (k - 1)) + a) [0..<k])[k - 1 := b] ! i
      = map (\<lambda>j. real j * ((b - a) / real (k - 1)) + a) [0..<k] ! i"
    by (simp only: nth_list_update_neq nat_neq_iff simp_thms)
  also from ik have "\<dots> = real i * ((b - a) / real (k - 1)) + a"
    by simp
  finally show ?thesis
    using k by (simp only: linspace_def Let_def if_True)
qed

lemma linspace_last: "1 < k \<Longrightarrow> linspace a b k ! (k - 1) = b"
  by (simp add: linspace_def Let_def)

lemma length_x_mm: "length x_mm = 100"
  by (simp add: x_mm_def logspace_def length_linspace)

lemma x_mm_nth_map: "i < 100 \<Longrightarrow> x_mm ! i = 10 powr (linspace 0 4 100 ! i)"
  by (simp add: x_mm_def logspace_def length_linspace float_pow_ten)

lemma x_mm_nth:
  assumes "i < 100"
  shows "x_mm ! i = 10 powr (4 * real i / 99)"
proof (cases "i = 99")
  case True
  have "linspace 0 4 100 ! (100 - 1) = 4"
    by (rule linspace_last) simp
  with True have "x_mm ! i = 10 powr 4"
    by (simp add: x_mm_nth_map)
  with True show ?thesis by simp
next
  case False
  with assms have "i < 100 - 1" by simp
  from linspace_nth [OF this, of 0 4] have "linspace 0 4 100 ! i = 4 * real i / 99"
    by simp
  then have "10 powr (linspace 0 4 100 ! i) = 10 powr (4 * real i / 99)"
    by (rule arg_cong)
  with assms show ?thesis
    by (simp only: x_mm_nth_map)
qed

subsection \<open>The fields of the plan\<close>

lemma res_simps:
  "res_altura_total (calcular_plano A B H d fl ls) = (H + subperf) / cos inclinacao_rad"
  "res_S (calcular_plano A B H d fl ls) = calcular_espacamento H B"
  "res_Qe (calcular_plano A B H d fl ls) =
     calcular_qe d diametro ((H + subperf) / cos inclinacao_rad)"
  "res_n_furos (calcular_plano A B H d fl ls) = fl * ls"
  "res_massa_total (calcular_plano A B H d fl ls) =
     res_Qe (calcular_plano A B H d fl ls) * real_of_int (fl * ls)"
  "res_V (calcular_plano A B H d fl ls) = calcular_espacamento H B * B * H"
  "res_K (calcular_plano A B H d fl ls) =
     res_Qe (calcular_plano A B H d fl ls) / res_V (calcular_plano A B H d fl ls)"
  "res_X50 (calcular_plano A B H d fl ls) =
     calcular_x50 A (res_K (calcular_plano A B H d fl ls)) (res_Qe (calcular_plano A B H d fl ls))"
  "res_X50_mm (calcular_plano A B H d fl ls) = res_X50 (calcular_plano A B H d fl ls) * 10"
  "res_n (calcular_plano A B H d fl ls) =
     indice_n B (calcular_espacamento H B) diametro W_desvio
       ((H + subperf) / cos inclinacao_rad) H"
  by (simp_all add: calcular_plano_def Let_def)

lemma cos_inclinacao_pos: "0 < cos inclinacao_rad"
proof (rule cos_gt_zero_pi)
  show "- (pi / 2) < inclinacao_rad"
    by (simp add: inclinacao_rad_def inclinacao_def radians_def)
  show "inclinacao_rad < pi / 2"
    by (simp add: inclinacao_rad_def inclinacao_def radians_def)
qed

lemma altura_total_pos: "0 < H + subperf \<Longrightarrow> 0 < (H + subperf) / cos inclinacao_rad"
  using cos_inclinacao_pos by simp

lemma calcular_qe_pos: "0 < d \<Longrightarrow> 0 < D \<Longrightarrow> 0 < L \<Longrightarrow> 0 < calcular_qe d D L"
  by (simp add: calcular_qe_def Let_def)

lemma divisores_nao_nulos:
  assumes "B \<in> snd ` set malha" and "2 \<le> H" and "H \<le> 15"
  shows "B \<noteq> 0 \<and> H \<noteq> 0 \<and> diametro \<noteq> 0 \<and> cos inclinacao_rad \<noteq> 0 \<and>
         0 < res_V (calcular_plano A B H d fl ls)"
proof -
  from assms(1) have "B = 6.5 \<or> B = 3"
    by (auto simp: malha_def)
  then have B: "0 < B" by auto
  from assms(2) have H: "0 < H" by simp
  have "0 < calcular_espacamento H B"
    using B H by (simp add: calcular_espacamento_def)
  with B H have "0 < calcular_espacamento H B * B * H"
    by simp
  then have "0 < res_V (calcular_plano A B H d fl ls)"
    by (simp only: res_simps)
  moreover have "cos inclinacao_rad \<noteq> 0"
    using cos_inclinacao_pos by simp
  moreover have "diametro \<noteq> 0"
    by (simp add: diametro_def)
  ultimately show ?thesis
    using B H by simp
qed

lemma malha_burden: "B \<in> snd ` set malha \<longleftrightarrow> B = 6.5 \<or> B = 3"
  by (auto simp: malha_def)

lemma it_X50_temp_iterar: "it_X50_temp (iterar A K Qe H n item) = calcular_x50 A K Qe * 10"
  by (simp add: iterar_def Let_def)

lemma it_P_iterar:
  "it_P (iterar A K Qe H n item) = map (\<lambda>x. passante_P x (calcular_x50 A K Qe * 10) n) x_mm"
  by (simp add: iterar_def Let_def)

subsection \<open>Bounds on \<open>pi\<close> and on the exponential\<close>

text \<open>
  \<open>pi\<close> lies between \<open>3.141\<close> and \<open>3.142\<close>: the sine is increasing up to \<open>pi / 2\<close>, it is
  \<open>1 / 2\<close> at \<open>pi / 6\<close>, and its Taylor polynomial of degree 9 decides the two sides.
\<close>

lemma lessThan_10: "{..<10::nat} = {0, 1, 2, 3, 4, 5, 6, 7, 8, 9}"
  by auto

lemma lessThan_8: "{..<8::nat} = {0, 1, 2, 3, 4, 5, 6, 7}"
  by auto

lemma sin_coeff_values:
  "sin_coeff 0 = 0" "sin_coeff (Suc 0) = 1" "sin_coeff 2 = 0" "sin_coeff 3 = - 1 / 6"
  "sin_coeff 4 = 0" "sin_coeff 5 = 1 / 120" "sin_coeff 6 = 0" "sin_coeff 7 = - 1 / 5040"
  "sin_coeff 8 = 0" "sin_coeff 9 = 1 / 362880"
  by (simp_all add: sin_coeff_def fact_numeral)

lemma sin_poly_bound:
  "\<bar>sin x - (x - x ^ 3 / 6 + x ^ 5 / 120 - x ^ 7 / 5040 + x ^ 9 / 362880)\<bar>
     \<le> \<bar>x\<bar> ^ 10 / 3628800"
  for x :: real
proof -
  have "(\<Sum>m<10. f m) = f 0 + f 1 + f 2 + f 3 + f 4 + f 5 + f 6 + f 7 + f 8 + f 9"
    for f :: "nat \<Rightarrow> real"
    by (simp add: lessThan_10)
  then have "(\<Sum>m<10. sin_coeff m * x ^ m) =
      sin_coeff 0 * x ^ 0 + sin_coeff 1 * x ^ 1 + sin_coeff 2 * x ^ 2 + sin_coeff 3 * x ^ 3
      + sin_coeff 4 * x ^ 4 + sin_coeff 5 * x ^ 5 + sin_coeff 6 * x ^ 6 + sin_coeff 7 * x ^ 7
      + sin_coeff 8 * x ^ 8 + sin_coeff 9 * x ^ 9" .
  also have "\<dots> = x - x ^ 3 / 6 + x ^ 5 / 120 - x ^ 7 / 5040 + x ^ 9 / 362880"
    unfolding One_nat_def sin_coeff_values by simp
  finally have p: "(\<Sum>m<10. sin_coeff m * x ^ m) =
      x - x ^ 3 / 6 + x ^ 5 / 120 - x ^ 7 / 5040 + x ^ 9 / 362880" .
  have f: "(fact 10 :: real) = 3628800"
    by (simp add: fact_numeral)
  have "\<bar>sin x - (\<Sum>m<10. sin_coeff m * x ^ m)\<bar> \<le> inverse (fact 10) * \<bar>x\<bar> ^ 10"
    by (rule Maclaurin_sin_bound)
  then show ?thesis
    unfolding p f inverse_eq_divide by simp
qed

lemma sin_3141: "sin (3141 / 6000 :: real) < 1 / 2"
proof -
  define s :: real where "s = sin (3141 / 6000)"
  have "\<bar>s - (3141 / 6000 - (3141 / 6000) ^ 3 / 6 + (3141 / 6000) ^ 5 / 120
          - (3141 / 6000) ^ 7 / 5040 + (3141 / 6000) ^ 9 / 362880)\<bar>
        \<le> \<bar>3141 / 6000\<bar> ^ 10 / 3628800"
    unfolding s_def by (rule sin_poly_bound)
  then have "s - (3141 / 6000 - (3141 / 6000) ^ 3 / 6 + (3141 / 6000) ^ 5 / 120
          - (3141 / 6000) ^ 7 / 5040 + (3141 / 6000) ^ 9 / 362880)
        \<le> \<bar>3141 / 6000\<bar> ^ 10 / 3628800"
    by (rule abs_le_D1)
  then have "s < 1 / 2"
    by (simp add: power_divide)
  then show ?thesis by (simp add: s_def)
qed

lemma sin_3142: "1 / 2 < sin (3142 / 6000 :: real)"
proof -
  define s :: real where "s = sin (3142 / 6000)"
  have "\<bar>s - (3142 / 6000 - (3142 / 6000) ^ 3 / 6 + (3142 / 6000) ^ 5 / 120
          - (3142 / 6000) ^ 7 / 5040 + (3142 / 6000) ^ 9 / 362880)\<bar>
        \<le> \<bar>3142 / 6000\<bar> ^ 10 / 3628800"
    unfolding s_def by (rule sin_poly_bound)
  then have "- (s - (3142 / 6000 - (3142 / 6000) ^ 3 / 6 + (3142 / 6000) ^ 5 / 120
          - (3142 / 6000) ^ 7 / 5040 + (3142 / 6000) ^ 9 / 362880))
        \<le> \<bar>3142 / 6000\<bar> ^ 10 / 3628800"
    by (rule abs_le_D2)
  then have "1 / 2 < s"
    by (simp add: power_divide)
  then show ?thesis by (simp add: s_def)
qed

lemma pi_gt_3141: "3.141 < pi"
proof (rule ccontr)
  assume "\<not> 3.141 < pi"
  then have le: "pi / 6 \<le> 3141 / 6000" by simp
  have "sin (pi / 6) \<le> sin (3141 / 6000)"
  proof (rule sin_monotone_2pi_le [OF _ le])
    show "- (pi / 2) \<le> pi / 6" by simp
    show "3141 / 6000 \<le> pi / 2" using pi_ge_two by simp
  qed
  then have "1 / 2 \<le> sin (3141 / 6000 :: real)" by (simp add: sin_30)
  with sin_3141 show False by simp
qed

lemma pi_lt_3142: "pi < 3.142"
proof (rule ccontr)
  assume "\<not> pi < 3.142"
  then have le: "3142 / 6000 \<le> pi / 6" by simp
  have "sin (3142 / 6000) \<le> sin (pi / 6)"
  proof (rule sin_monotone_2pi_le [OF _ le])
    have "- (pi / 2) \<le> 0" by simp
    then show "- (pi / 2) \<le> 3142 / 6000" by linarith
    show "pi / 6 \<le> pi / 2" by simp
  qed
  then have "sin (3142 / 6000 :: real) \<le> 1 / 2" by (simp add: sin_30)
  with sin_3142 show False by simp
qed

text \<open>
  \<open>exp (- 0.693)\<close> to five places, from the Taylor polynomial of degree 7 with the
  Lagrange remainder.
\<close>

lemma exp_0693_bound: "\<bar>exp (- 0.693 :: real) - 0.50007\<bar> \<le> 0.00001"
proof -
  define c :: real where "c = (- 0.693) ^ 8 / fact 8"
  define p :: real where "p = (\<Sum>m<8. (- 0.693) ^ m / fact m)"
  obtain t :: real where t: "\<bar>t\<bar> \<le> \<bar>- 0.693\<bar>"
    and "exp (- 0.693 :: real) =
      (\<Sum>m<8. (- 0.693) ^ m / fact m) + exp t / fact 8 * (- 0.693) ^ 8"
    using Maclaurin_exp_le [of "- 0.693" 8] by blast
  then have e: "exp (- 0.693 :: real) = p + exp t * c"
    by (simp add: c_def p_def)
  from t have "t \<le> 1" by simp
  then have "exp t \<le> exp 1" by simp
  also have "\<dots> \<le> 3" by (rule exp_le)
  finally have u: "exp t \<le> 3" .
  have c0: "0 \<le> c" by (simp add: c_def)
  have c1: "3 * c \<le> 0.000004" by (simp add: c_def fact_numeral power_divide)
  have r0: "0 \<le> exp t * c"
    using c0 by simp
  have "exp t * c \<le> 3 * c"
    using u c0 by (rule mult_right_mono)
  with c1 have r1: "exp t * c \<le> 0.000004" by simp
  have s: "0.500072 \<le> p" "p \<le> 0.500073"
    by (simp_all add: p_def lessThan_8 fact_numeral power_divide)
  show ?thesis
    unfolding e abs_le_iff using s r0 r1 by simp
qed

section \<open>Spacing\<close>

text \<open>
  C8. \<open>calcular_espacamento H B\<close> is \<open>0.23 * (H + 2 * B)\<close> for all real arguments, with
  no case distinction and no bound on them; at \<open>H = 10\<close>, \<open>B = 6.5\<close> it is \<open>5.29\<close>, hence
  within \<open>1e-9\<close> of it.
\<close>

theorem calcular_espacamento_formula:
  "calcular_espacamento H B = 0.23 * (H + 2 * B) \<and>
   calcular_espacamento 10 6.5 = 5.29 \<and>
   \<bar>calcular_espacamento 10 6.5 - 5.29\<bar> \<le> 1 / 10 ^ 9"
  by (simp add: calcular_espacamento_def)

section \<open>Charge mass\<close>

text \<open>
  C4. \<open>calcular_qe\<close> follows the unit chain: the diameter in mm divided by 10 (cm), the
  cross-section \<open>pi / 4 * d ^ 2\<close> (square cm), times the density (g/cm), times the length in m
  multiplied by 100 (cm), the mass in g divided by 1000 (kg). At density \<open>0.90\<close>, diameter
  \<open>76.2\<close> and hole length \<open>10.68\<close> the result is within \<open>0.05\<close> of \<open>43.83\<close>.
\<close>

theorem calcular_qe_unit_chain:
  "calcular_qe d D L = ((pi / 4) * (D / 10)\<^sup>2 * d) * (L * 100) / 1000 \<and>
   \<bar>calcular_qe 0.90 76.2 10.68 - 43.83\<bar> \<le> 0.05"
proof
  show "calcular_qe d D L = ((pi / 4) * (D / 10)\<^sup>2 * d) * (L * 100) / 1000"
    by (simp add: calcular_qe_def Let_def)
  have eq: "calcular_qe 0.90 76.2 10.68 = pi * 13.95287532"
    by (simp add: calcular_qe_def Let_def power2_eq_square)
  have "43.78 \<le> pi * 13.95287532" "pi * 13.95287532 \<le> 43.88"
    using pi_gt_3141 pi_lt_3142 by simp_all
  then show "\<bar>calcular_qe 0.90 76.2 10.68 - 43.83\<bar> \<le> 0.05"
    unfolding eq abs_le_iff by linarith
qed

section \<open>Uniformity index\<close>

text \<open>
  C3. Where no divisor of line 109 is zero (the burden, the diameter and the bench
  height) and the radicand \<open>1 + (S / B) / 2\<close> is not negative, the index computed at line
  109 is the specification's \<open>uniformity_index\<close>, the power \<open>0.5\<close> being the square root.
  For a positive burden \<open>b\<close> and a positive bench height \<open>h\<close>, the \<open>n\<close> of the plan is
  \<open>uniformity_index\<close> at the burden \<open>b\<close>, the spacing \<open>0.23 * (h + 2 * b)\<close>, the diameter
  \<open>76.2\<close> (in mm, passed as it is beside the burden in m), the deviation \<open>0.1\<close>, the
  total hole length \<open>(h + 0.6) / cos (radians 15)\<close> as the charge length, and the bench
  height \<open>h\<close>; that spacing and that hole length are the \<open>S\<close> and the \<open>altura_total\<close> of
  the plan.
\<close>

theorem indice_n_uniformity_index:
  assumes "B \<noteq> 0" and "D \<noteq> 0" and "H \<noteq> 0" and "0 \<le> 1 + (S / B) / 2"
    and "0 < b" and "0 < h"
  shows "indice_n B S D W L H = uniformity_index B S D W L H \<and>
         res_n (calcular_plano A b h d fl ls) =
           uniformity_index b (0.23 * (h + 2 * b)) 76.2 0.1
             ((h + 0.6) / cos (radians 15)) h \<and>
         res_S (calcular_plano A b h d fl ls) = 0.23 * (h + 2 * b) \<and>
         res_altura_total (calcular_plano A b h d fl ls) = (h + 0.6) / cos (radians 15)"
proof (intro conjI)
  from assms(4) show "indice_n B S D W L H = uniformity_index B S D W L H"
    unfolding indice_n_def uniformity_index_def by (simp only: float_pow_half)
  show S: "res_S (calcular_plano A b h d fl ls) = 0.23 * (h + 2 * b)"
    by (simp add: res_simps calcular_espacamento_def)
  show L: "res_altura_total (calcular_plano A b h d fl ls) = (h + 0.6) / cos (radians 15)"
    by (simp add: res_simps subperf_def inclinacao_rad_def inclinacao_def)
  have "0 \<le> (0.23 * (h + 2 * b)) / b"
    using assms(5,6) by simp
  then have "0 \<le> 1 + ((0.23 * (h + 2 * b)) / b) / 2"
    by simp
  then have "indice_n b (0.23 * (h + 2 * b)) 76.2 0.1 ((h + 0.6) / cos (radians 15)) h =
      uniformity_index b (0.23 * (h + 2 * b)) 76.2 0.1 ((h + 0.6) / cos (radians 15)) h"
    unfolding indice_n_def uniformity_index_def by (simp only: float_pow_half)
  moreover have "res_n (calcular_plano A b h d fl ls) =
      indice_n b (0.23 * (h + 2 * b)) 76.2 0.1 ((h + 0.6) / cos (radians 15)) h"
    by (simp add: res_simps calcular_espacamento_def diametro_def W_desvio_def subperf_def
        inclinacao_rad_def inclinacao_def)
  ultimately show "res_n (calcular_plano A b h d fl ls) =
      uniformity_index b (0.23 * (h + 2 * b)) 76.2 0.1 ((h + 0.6) / cos (radians 15)) h"
    by (simp only:)
qed

theorem indice_n_uniformity_index_witness:
  "(6.5::real) \<noteq> 0 \<and> (76.2::real) \<noteq> 0 \<and> (10::real) \<noteq> 0 \<and>
   (0::real) \<le> 1 + (5.29 / 6.5) / 2 \<and> (0::real) < 6.5 \<and> (0::real) < 10 \<and>
   indice_n 6.5 5.29 76.2 0.1 11 10 = uniformity_index 6.5 5.29 76.2 0.1 11 10 \<and>
   res_n (calcular_plano 3 6.5 10 0.9 5 4) =
     uniformity_index 6.5 (0.23 * (10 + 2 * 6.5)) 76.2 0.1 ((10 + 0.6) / cos (radians 15)) 10 \<and>
   res_S (calcular_plano 3 6.5 10 0.9 5 4) = 0.23 * (10 + 2 * 6.5) \<and>
   res_altura_total (calcular_plano 3 6.5 10 0.9 5 4) = (10 + 0.6) / cos (radians 15)"
proof -
  have h1: "(6.5::real) \<noteq> 0" and h2: "(76.2::real) \<noteq> 0" and h3: "(10::real) \<noteq> 0"
    and h4: "(0::real) \<le> 1 + (5.29 / 6.5) / 2" and h5: "(0::real) < 6.5"
    and h6: "(0::real) < 10"
    by simp_all
  from indice_n_uniformity_index [OF h1 h2 h3 h4 h5 h6, of "0.1" 11 3 "0.9" 5 4]
    h1 h2 h3 h4 h5 h6
  show ?thesis by blast
qed

section \<open>The Rosin-Rammler curve\<close>

text \<open>
  C5. For a fixed \<open>X50 > 0\<close> and a fixed \<open>n > 0\<close>, the percentage passing
  \<open>100 * (1 - exp (- 0.693 * (x / X50) ** n))\<close> does not decrease as the sieve opening
  \<open>x \<ge> 0\<close> grows, and it lies between 0 and 100.
\<close>

theorem passante_P_mono_bounded:
  assumes "0 < X50" and "0 < n" and "0 \<le> x" and "x \<le> y"
  shows "passante_P x X50 n \<le> passante_P y X50 n \<and>
         0 \<le> passante_P x X50 n \<and> passante_P x X50 n \<le> 100"
proof -
  from assms have "x / X50 \<le> y / X50" and "0 \<le> x / X50"
    by (simp_all add: divide_right_mono)
  with assms(2) have "(x / X50) powr n \<le> (y / X50) powr n"
    by (intro powr_mono2) simp_all
  with assms(2) have "passante_P x X50 n \<le> passante_P y X50 n"
    by (simp add: passante_P_def rosin_R_def float_pow_def)
  moreover have "0 \<le> passante_P x X50 n \<and> passante_P x X50 n \<le> 100"
    by (simp add: passante_P_def rosin_R_def float_pow_def)
  ultimately show ?thesis by simp
qed

theorem passante_P_mono_bounded_witness:
  "(0::real) < 120 \<and> (0::real) < 3 / 2 \<and> (0::real) \<le> 10 \<and> (10::real) \<le> 20 \<and>
   passante_P 10 120 (3 / 2) \<le> passante_P 20 120 (3 / 2) \<and>
   0 \<le> passante_P 10 120 (3 / 2) \<and> passante_P 10 120 (3 / 2) \<le> 100"
proof -
  have h1: "(0::real) < 120" and h2: "(0::real) < 3 / 2"
    and h3: "(0::real) \<le> 10" and h4: "(10::real) \<le> 20"
    by simp_all
  from passante_P_mono_bounded [OF h1 h2 h3 h4] h1 h2 h3 h4
  show ?thesis by blast
qed

text \<open>
  C6. For every \<open>X50 > 0\<close> and every positive \<open>n\<close>, the percentage passing at the sieve
  opening \<open>x = X50\<close> is \<open>100 * (1 - exp (- 0.693))\<close>, which is within \<open>0.01\<close> of 50, and
  the percentage passing at the opening 0 is 0.
\<close>

theorem passante_P_at_X50:
  assumes "0 < X50" and "0 < n"
  shows "passante_P X50 X50 n = 100 * (1 - exp (- 0.693)) \<and>
         \<bar>passante_P X50 X50 n - 50\<bar> \<le> 0.01 \<and>
         passante_P 0 X50 n = 0"
proof -
  from assms have eq: "passante_P X50 X50 n = 100 * (1 - exp (- 0.693))"
    by (simp add: passante_P_def rosin_R_def float_pow_def)
  have "\<bar>100 * (1 - exp (- 0.693 :: real)) - 50\<bar> \<le> 0.01"
    using exp_0693_bound unfolding abs_le_iff by simp
  with eq have "\<bar>passante_P X50 X50 n - 50\<bar> \<le> 0.01"
    by (simp only:)
  moreover from assms have "passante_P 0 X50 n = 0"
    by (simp add: passante_P_def rosin_R_def float_pow_def)
  ultimately show ?thesis
    using eq by simp
qed

theorem passante_P_at_X50_witness:
  "(0::real) < 120 \<and> (0::real) < 3 / 2 \<and>
   passante_P 120 120 (3 / 2) = 100 * (1 - exp (- 0.693)) \<and>
   \<bar>passante_P 120 120 (3 / 2) - 50\<bar> \<le> 0.01 \<and>
   passante_P 0 120 (3 / 2) = 0"
proof -
  have h1: "(0::real) < 120" and h2: "(0::real) < 3 / 2"
    by simp_all
  from passante_P_at_X50 [OF h1 h2] h1 h2
  show ?thesis by blast
qed

section \<open>The sweep over the pattern classes\<close>

lemma map_of_key: "k \<in> set (map fst xs) \<Longrightarrow> \<exists>v. map_of xs k = Some v"
  by (cases "map_of xs k") (simp_all add: map_of_eq_None_iff)

lemma x_mm_explicit: "x_mm = map (\<lambda>i. 10 powr (4 * real i / 99)) [0..<100]"
proof (rule nth_equalityI)
  show "length x_mm = length (map (\<lambda>i. 10 powr (4 * real i / 99)) [0..<100])"
    by (simp only: length_x_mm length_map length_upt)
  fix i
  assume "i < length x_mm"
  then have i: "i < 100" by (simp only: length_x_mm)
  then have "map (\<lambda>i. 10 powr (4 * real i / 99)) [0..<100] ! i = 10 powr (4 * real i / 99)"
    by (simp only: nth_map_upt minus_nat.diff_0 add_0)
  with i show "x_mm ! i = map (\<lambda>i. 10 powr (4 * real i / 99)) [0..<100] ! i"
    by (simp only: x_mm_nth)
qed

lemma x_mm_first: "x_mm ! 0 = 1"
proof -
  have "x_mm ! 0 = 10 powr (4 * real 0 / 99)"
    by (rule x_mm_nth) simp
  then show ?thesis by simp
qed

lemma x_mm_last: "x_mm ! 99 = 10000"
proof -
  have "x_mm ! 99 = 10 powr (4 * real 99 / 99)"
    by (rule x_mm_nth) simp
  also have "4 * real 99 / 99 = 4" by simp
  also have "(10::real) powr 4 = 10 ^ 4"
    by (rule powr_numeral) simp
  finally show ?thesis by simp
qed

lemma curvas_malha:
  "map rotulo (curvas p A H) = [''Malha Aberta'', ''Malha Fechada'']"
  "map eixo_x (curvas p A H) = [x_mm, x_mm]"
  "map (\<lambda>c. length (eixo_P c)) (curvas p A H) = [100, 100]"
  by (simp_all add: curvas_def iteracoes_def plotar_def malha_def it_P_iterar length_x_mm)
    (simp_all add: iterar_def Let_def)


lemma simular_valida:
  assumes "entrada_valida e"
  shows "\<exists>A B d. map_of macicos (macico_tipo e) = Some A \<and>
           map_of malha (malha_tipo e) = Some B \<and>
           map_of explosivos (explosivo_tipo e) = Some d \<and>
           simular e = Inr \<lparr>resultado = calcular_plano A B (altura e) d (furos_linha e) (linhas e),
             graficos = curvas (calcular_plano A B (altura e) d (furos_linha e) (linhas e)) A (altura e)\<rparr>"
proof -
  from assms have "macico_tipo e \<in> set (map fst macicos)"
    and "malha_tipo e \<in> set (map fst malha)"
    and "explosivo_tipo e \<in> set (map fst explosivos)"
    by (simp_all only: entrada_valida_def)
  then obtain A B d where A: "map_of macicos (macico_tipo e) = Some A"
    and B: "map_of malha (malha_tipo e) = Some B"
    and d: "map_of explosivos (explosivo_tipo e) = Some d"
    using map_of_key by metis
  have "simular e = Inr \<lparr>resultado = calcular_plano A B (altura e) d (furos_linha e) (linhas e),
      graficos = curvas (calcular_plano A B (altura e) d (furos_linha e) (linhas e)) A (altura e)\<rparr>"
    unfolding simular_def A B d by (simp only: option.case Let_def)
  with A B d show ?thesis by blast
qed

text \<open>
  C7. For every valid input the run returns, and the sweep has produced exactly one
  curve per entry of \<open>malha\<close>, in the order of the catalogue (Aberta, then Fechada). Each
  curve has the 100 sieve openings \<open>x_mm\<close> and 100 values; the openings are
  \<open>10 powr (4 * i / 99)\<close> for \<open>i = 0, \<dots>, 99\<close>, so they are log-spaced from 1 (at index 0)
  to 10000 (at index 99).
\<close>

theorem sweep_one_curve_per_malha:
  assumes "entrada_valida e"
  shows "(\<exists>s. simular e = Inr s \<and>
            length (graficos s) = length malha \<and>
            map rotulo (graficos s) = [''Malha Aberta'', ''Malha Fechada''] \<and>
            map eixo_x (graficos s) = [x_mm, x_mm] \<and>
            map (\<lambda>c. length (eixo_P c)) (graficos s) = [100, 100]) \<and>
         map fst malha = [''Aberta'', ''Fechada''] \<and>
         length x_mm = 100 \<and>
         x_mm = map (\<lambda>i. 10 powr (4 * real i / 99)) [0..<100] \<and>
         x_mm ! 0 = 1 \<and> x_mm ! 99 = 10000"
proof (intro conjI)
  from simular_valida [OF assms] obtain p A where
    s: "simular e = Inr \<lparr>resultado = p, graficos = curvas p A (altura e)\<rparr>"
    by blast
  define g where "g = \<lparr>resultado = p, graficos = curvas p A (altura e)\<rparr>"
  have g: "graficos g = curvas p A (altura e)"
    by (simp add: g_def)
  have "length (graficos g) = length malha"
    unfolding g by (simp add: curvas_def iteracoes_def)
  moreover have "map rotulo (graficos g) = [''Malha Aberta'', ''Malha Fechada'']"
    unfolding g by (rule curvas_malha)
  moreover have "map eixo_x (graficos g) = [x_mm, x_mm]"
    unfolding g by (rule curvas_malha)
  moreover have "map (\<lambda>c. length (eixo_P c)) (graficos g) = [100, 100]"
    unfolding g by (rule curvas_malha)
  moreover from s have "simular e = Inr g"
    by (simp only: g_def)
  ultimately show "\<exists>s. simular e = Inr s \<and>
            length (graficos s) = length malha \<and>
            map rotulo (graficos s) = [''Malha Aberta'', ''Malha Fechada''] \<and>
            map eixo_x (graficos s) = [x_mm, x_mm] \<and>
            map (\<lambda>c. length (eixo_P c)) (graficos s) = [100, 100]"
    by (intro exI [of _ g] conjI)
  show "map fst malha = [''Aberta'', ''Fechada'']"
    by (simp add: malha_def)
  show "length x_mm = 100" by (rule length_x_mm)
  show "x_mm = map (\<lambda>i. 10 powr (4 * real i / 99)) [0..<100]" by (rule x_mm_explicit)
  show "x_mm ! 0 = 1" by (rule x_mm_first)
  show "x_mm ! 99 = 10000" by (rule x_mm_last)
qed

theorem sweep_one_curve_per_malha_witness:
  "entrada_valida \<lparr>explosivo_tipo = ''ANFO'', macico_tipo = ''Rocha branda e pouco fraturada'',
      malha_tipo = ''Aberta'', altura = 10, furos_linha = 5, linhas = 4\<rparr> \<and>
   ((\<exists>s. simular \<lparr>explosivo_tipo = ''ANFO'', macico_tipo = ''Rocha branda e pouco fraturada'',
            malha_tipo = ''Aberta'', altura = 10, furos_linha = 5, linhas = 4\<rparr> = Inr s \<and>
        length (graficos s) = length malha \<and>
        map rotulo (graficos s) = [''Malha Aberta'', ''Malha Fechada''] \<and>
        map eixo_x (graficos s) = [x_mm, x_mm] \<and>
        map (\<lambda>c. length (eixo_P c)) (graficos s) = [100, 100]) \<and>
    map fst malha = [''Aberta'', ''Fechada''] \<and>
    length x_mm = 100 \<and>
    x_mm = map (\<lambda>i. 10 powr (4 * real i / 99)) [0..<100] \<and>
    x_mm ! 0 = 1 \<and> x_mm ! 99 = 10000)"
proof -
  have h: "entrada_valida \<lparr>explosivo_tipo = ''ANFO'',
      macico_tipo = ''Rocha branda e pouco fraturada'',
      malha_tipo = ''Aberta'', altura = 10, furos_linha = 5, linhas = 4\<rparr>"
    by (simp add: entrada_valida_def explosivos_def macicos_def malha_def)
  from h sweep_one_curve_per_malha [OF h] show ?thesis
    by (rule conjI)
qed

text \<open>
  C9. All the curves of the sweep are the same, point for point: every iteration
  evaluates \<open>passante_P\<close> with the \<open>X50\<close> of the plan's own \<open>K\<close> and with the plan's \<open>n\<close>, so
  its values do not depend on the entry of \<open>malha\<close>; the \<open>S_temp\<close>, \<open>V_temp\<close> and \<open>K_temp\<close>
  of the iteration are not read.
\<close>

theorem curvas_identicas:
  "map eixo_P (curvas p A H) =
     replicate (length malha)
       (map (\<lambda>x. passante_P x (calcular_x50 A (res_K p) (res_Qe p) * 10) (res_n p)) x_mm) \<and>
   map eixo_x (curvas p A H) = replicate (length malha) x_mm \<and>
   map it_X50_temp (iteracoes p A H) =
     replicate (length malha) (calcular_x50 A (res_K p) (res_Qe p) * 10) \<and>
   length malha = 2 \<and>
   eixo_P (curvas p A H ! 0) = eixo_P (curvas p A H ! 1) \<and>
   eixo_x (curvas p A H ! 0) = eixo_x (curvas p A H ! 1) \<and>
   it_P (iterar A K Qe H n item) = it_P (iterar A K Qe H n item')"
  by (simp add: curvas_def iteracoes_def plotar_def malha_def it_P_iterar it_X50_temp_iterar)

section \<open>Positivity on the widget domain\<close>

lemma indice_n_pos:
  assumes B: "B = 6.5 \<or> B = 3" and H: "0 < H" and L: "0 < L"
  shows "0 < indice_n B (calcular_espacamento H B) 76.2 0.1 L H"
proof -
  from B have B0: "0 < B" by auto
  have f1: "0 < 2.2 - 14 * (B / 76.2)"
    using B by auto
  have "0 < calcular_espacamento H B"
    using B0 H by (simp add: calcular_espacamento_def)
  then have arg: "0 < 1 + (calcular_espacamento H B / B) / 2"
    using B0 by (simp add: add_pos_nonneg)
  then have f2: "0 < float_pow (1 + (calcular_espacamento H B / B) / 2) 0.5"
    by (simp add: float_pow_def)
  have f3: "0 < 1 - 0.1 / B"
    using B by auto
  have f4: "0 < L / H"
    using H L by simp
  show ?thesis
    unfolding indice_n_def
    by (intro mult_pos_pos f1 f2 f3 f4)
qed

text \<open>
  C10. For each burden of the catalogue \<open>malha\<close> (6.5 and 3) and each bench height from 2
  to 15, with the diameter \<open>76.2\<close>, the deviation \<open>0.1\<close>, and the spacing and hole length
  the plan derives, the uniformity index \<open>n\<close> of the plan is strictly positive.
\<close>

theorem res_n_positive:
  assumes "B \<in> snd ` set malha" and "2 \<le> H" and "H \<le> 15"
  shows "0 < res_n (calcular_plano A B H d fl ls) \<and>
         res_n (calcular_plano A B H d fl ls) =
           indice_n B (calcular_espacamento H B) 76.2 0.1
             ((H + 0.6) / cos (radians 15)) H"
proof -
  from assms(1) have B: "B = 6.5 \<or> B = 3"
    by (simp only: malha_burden)
  from assms(2) have H: "0 < H" by simp
  then have "0 < (H + subperf) / cos inclinacao_rad"
    by (intro altura_total_pos) (simp add: subperf_def)
  from indice_n_pos [OF B H this]
  have "0 < res_n (calcular_plano A B H d fl ls)"
    by (simp add: res_simps diametro_def W_desvio_def)
  moreover have "res_n (calcular_plano A B H d fl ls) =
      indice_n B (calcular_espacamento H B) 76.2 0.1 ((H + 0.6) / cos (radians 15)) H"
    by (simp add: res_simps diametro_def W_desvio_def subperf_def inclinacao_rad_def
        inclinacao_def)
  ultimately show ?thesis by (rule conjI)
qed

theorem res_n_positive_witness:
  "(6.5::real) \<in> snd ` set malha \<and> (2::real) \<le> 10 \<and> (10::real) \<le> 15 \<and>
   0 < res_n (calcular_plano 3 6.5 10 0.9 5 4) \<and>
   res_n (calcular_plano 3 6.5 10 0.9 5 4) =
     indice_n 6.5 (calcular_espacamento 10 6.5) 76.2 0.1 ((10 + 0.6) / cos (radians 15)) 10"
proof -
  have h1: "(6.5::real) \<in> snd ` set malha"
    by (simp add: malha_def)
  have h2: "(2::real) \<le> 10" and h3: "(10::real) \<le> 15"
    by simp_all
  from res_n_positive [OF h1 h2 h3, of 3 "0.9" 5 4] h1 h2 h3
  show ?thesis by (intro conjI) simp_all
qed

section \<open>The mean fragment size in the sweep\<close>

text \<open>
  C1 asks that the \<open>X50\<close> of each curve be computed from the powder factor \<open>K_temp\<close> of its
  own entry. At the widget defaults (ANFO of density \<open>0.9\<close>, rock factor \<open>A = 3\<close>, the
  pattern Aberta of burden \<open>6.5\<close>, bench height 10, 5 holes in each of 4 rows) both
  iterations hold the \<open>X50_mm\<close> of the plan in \<open>X50_temp\<close>, and for the entry Fechada that
  value differs from \<open>calcular_x50 A K_temp Qe * 10\<close>.
\<close>

theorem sweep_X50_temp_ignores_K_temp:
  "map it_X50_temp (iteracoes (calcular_plano 3 6.5 10 0.9 5 4) 3 10) =
     [res_X50_mm (calcular_plano 3 6.5 10 0.9 5 4),
      res_X50_mm (calcular_plano 3 6.5 10 0.9 5 4)] \<and>
   it_X50_temp (iteracoes (calcular_plano 3 6.5 10 0.9 5 4) 3 10 ! 1) \<noteq>
     calcular_x50 3 (it_K_temp (iteracoes (calcular_plano 3 6.5 10 0.9 5 4) 3 10 ! 1))
       (res_Qe (calcular_plano 3 6.5 10 0.9 5 4)) * 10"
proof -
  define p where "p = calcular_plano 3 6.5 10 0.9 5 4"
  define Qe where "Qe = res_Qe p"
  have Qe: "0 < Qe"
    unfolding Qe_def p_def res_simps
    by (intro calcular_qe_pos altura_total_pos) (simp_all add: diametro_def subperf_def)
  have K: "res_K p = Qe / 343.85"
    by (simp add: Qe_def p_def res_simps calcular_espacamento_def)
  have its: "iteracoes p 3 10 =
      [iterar 3 (res_K p) Qe 10 (res_n p) (''Aberta'', 6.5),
       iterar 3 (res_K p) Qe 10 (res_n p) (''Fechada'', 3)]"
    by (simp add: iteracoes_def malha_def Qe_def)
  have Kt: "it_K_temp (iterar 3 (res_K p) Qe 10 (res_n p) (''Fechada'', 3)) = Qe / 110.4"
    by (simp add: iterar_def Let_def calcular_espacamento_def)
  have "Qe / 343.85 < Qe / 110.4"
    using Qe by (simp add: field_simps)
  moreover have "0 < Qe / 343.85" using Qe by simp
  ultimately have lt: "(Qe / 110.4) powr (- 0.8) < (Qe / 343.85) powr (- 0.8)"
    by (intro powr_less_mono2_neg) simp_all
  have q: "0 < Qe powr (1 / 6)" using Qe by simp
  have "calcular_x50 3 (Qe / 110.4) Qe < calcular_x50 3 (Qe / 343.85) Qe"
    unfolding calcular_x50_def using lt q by (simp add: float_pow_def)
  then have ne: "calcular_x50 3 (res_K p) Qe * 10 \<noteq> calcular_x50 3 (Qe / 110.4) Qe * 10"
    unfolding K by simp
  have "map it_X50_temp (iteracoes p 3 10) = [res_X50_mm p, res_X50_mm p]"
    unfolding its by (simp add: it_X50_temp_iterar) (simp add: p_def res_simps Qe_def)
  moreover have "it_X50_temp (iteracoes p 3 10 ! 1) \<noteq>
      calcular_x50 3 (it_K_temp (iteracoes p 3 10 ! 1)) (res_Qe p) * 10"
    unfolding its using ne by (simp add: it_X50_temp_iterar Kt Qe_def [symmetric])
  ultimately show ?thesis
    unfolding p_def by (rule conjI)
qed


end
